theory Spec2Isabelle
  imports Complex_Main "HOL-Library.Sublist"
begin

section \<open>Numbers\<close>

text \<open>
  The program computes with Python floats and with numpy float64 values. A finite float
  is modelled by the real number it stands for: rounding, overflow, underflow and the
  sign of zero are not modelled (the one zero of the model is the positive zero). What is
  modelled is the part of IEEE arithmetic that the program can reach from finite inputs:
  numpy does not raise on a division by zero, on the logarithm of zero or of a negative
  number, or on \<open>inf - inf\<close>; it returns \<open>inf\<close>, \<open>-inf\<close> or \<open>nan\<close> (and prints a
  RuntimeWarning). Python's own float division raises ZeroDivisionError instead, and
  Python's float power with a negative base and a fractional exponent returns a complex
  number; the model keeps only the fact that such a value is complex (\<open>Cplx\<close>), and
  every numpy operation on a complex operand gives a complex result.
\<close>

datatype npfloat = Fin real | PInf | NInf | NaN | Cplx

fun np_add :: "npfloat \<Rightarrow> npfloat \<Rightarrow> npfloat" where
  "np_add Cplx _ = Cplx"
| "np_add _ Cplx = Cplx"
| "np_add NaN _ = NaN"
| "np_add _ NaN = NaN"
| "np_add (Fin a) (Fin b) = Fin (a + b)"
| "np_add (Fin a) PInf = PInf"
| "np_add (Fin a) NInf = NInf"
| "np_add PInf (Fin b) = PInf"
| "np_add NInf (Fin b) = NInf"
| "np_add PInf PInf = PInf"
| "np_add NInf NInf = NInf"
| "np_add PInf NInf = NaN"
| "np_add NInf PInf = NaN"

fun np_sub :: "npfloat \<Rightarrow> npfloat \<Rightarrow> npfloat" where
  "np_sub Cplx _ = Cplx"
| "np_sub _ Cplx = Cplx"
| "np_sub NaN _ = NaN"
| "np_sub _ NaN = NaN"
| "np_sub (Fin a) (Fin b) = Fin (a - b)"
| "np_sub (Fin a) PInf = NInf"
| "np_sub (Fin a) NInf = PInf"
| "np_sub PInf (Fin b) = PInf"
| "np_sub NInf (Fin b) = NInf"
| "np_sub PInf NInf = PInf"
| "np_sub NInf PInf = NInf"
| "np_sub PInf PInf = NaN"
| "np_sub NInf NInf = NaN"

fun np_mul :: "npfloat \<Rightarrow> npfloat \<Rightarrow> npfloat" where
  "np_mul Cplx _ = Cplx"
| "np_mul _ Cplx = Cplx"
| "np_mul NaN _ = NaN"
| "np_mul _ NaN = NaN"
| "np_mul (Fin a) (Fin b) = Fin (a * b)"
| "np_mul (Fin a) PInf = (if 0 < a then PInf else if a < 0 then NInf else NaN)"
| "np_mul (Fin a) NInf = (if 0 < a then NInf else if a < 0 then PInf else NaN)"
| "np_mul PInf (Fin b) = (if 0 < b then PInf else if b < 0 then NInf else NaN)"
| "np_mul NInf (Fin b) = (if 0 < b then NInf else if b < 0 then PInf else NaN)"
| "np_mul PInf PInf = PInf"
| "np_mul NInf NInf = PInf"
| "np_mul PInf NInf = NInf"
| "np_mul NInf PInf = NInf"

text \<open>
  numpy's division: a finite nonzero number divided by zero is an infinity of its sign,
  \<open>0 / 0\<close> is \<open>nan\<close>, a finite number divided by an infinity is zero.
\<close>

fun np_div :: "npfloat \<Rightarrow> npfloat \<Rightarrow> npfloat" where
  "np_div Cplx _ = Cplx"
| "np_div _ Cplx = Cplx"
| "np_div NaN _ = NaN"
| "np_div _ NaN = NaN"
| "np_div (Fin a) (Fin b) =
     (if b = 0 then (if 0 < a then PInf else if a < 0 then NInf else NaN)
      else Fin (a / b))"
| "np_div (Fin a) PInf = Fin 0"
| "np_div (Fin a) NInf = Fin 0"
| "np_div PInf (Fin b) = (if b < 0 then NInf else PInf)"
| "np_div NInf (Fin b) = (if b < 0 then PInf else NInf)"
| "np_div PInf PInf = NaN"
| "np_div NInf NInf = NaN"
| "np_div PInf NInf = NaN"
| "np_div NInf PInf = NaN"

text \<open>\<open>x**2\<close> on a numpy value.\<close>

definition np_sq :: "npfloat \<Rightarrow> npfloat" where
  "np_sq x = np_mul x x"

fun np_sqrt :: "npfloat \<Rightarrow> npfloat" where
  "np_sqrt (Fin a) = (if a < 0 then NaN else Fin (sqrt a))"
| "np_sqrt PInf = PInf"
| "np_sqrt NInf = NaN"
| "np_sqrt NaN = NaN"
| "np_sqrt Cplx = Cplx"

fun np_log10 :: "npfloat \<Rightarrow> npfloat" where
  "np_log10 (Fin a) = (if a < 0 then NaN else if a = 0 then NInf else Fin (log 10 a))"
| "np_log10 PInf = PInf"
| "np_log10 NInf = NaN"
| "np_log10 NaN = NaN"
| "np_log10 Cplx = Cplx"

fun np_exp :: "npfloat \<Rightarrow> npfloat" where
  "np_exp (Fin a) = Fin (exp a)"
| "np_exp PInf = PInf"
| "np_exp NInf = Fin 0"
| "np_exp NaN = NaN"
| "np_exp Cplx = Cplx"


text \<open>
  Python's \<open>x ** y\<close> on floats, for the exponents of this program: each is a non-integer
  constant, and it is positive wherever the base can be zero. A negative base gives a
  complex number.
\<close>

definition py_pow :: "real \<Rightarrow> real \<Rightarrow> npfloat" where
  "py_pow x y = (if x < 0 then Cplx else Fin (x powr y))"

section \<open>Errors\<close>

text \<open>
  The entries of the list \<open>errors\<close> that \<open>_validate_parameters\<close> collects, in the
  source's order:
  \<^item> \<open>LengthNotPositive\<close>: "Comprimento deve ser positivo";
  \<^item> \<open>BeamNotPositive\<close>: "Boca deve ser positiva";
  \<^item> \<open>DraftNotPositive\<close>: "Calado deve ser positivo";
  \<^item> \<open>BlockCoefficientRange cb\<close>: "Coeficiente de bloco (CB=cb) deve estar entre 0.3 e 1.0";
  \<^item> \<open>BlockCoefficientHint\<close>: the guidance note "Dica: Para barcos rapidos, use CB entre
    0.35-0.45", appended together with the entry before it.
\<close>

datatype violation =
    LengthNotPositive
  | BeamNotPositive
  | DraftNotPositive
  | BlockCoefficientRange real
  | BlockCoefficientHint

text \<open>
  The exceptions of the program. The source raises Python's ValueError twice: with the
  joined list of violations (\<open>ValidationError\<close>) and with the message "Execute o calculo
  primeiro" (\<open>NoResultError\<close>). \<open>ZeroDivisionError\<close> is Python's float division by zero,
  \<open>KeyError\<close> a missing dictionary key.
\<close>

datatype pyerror =
    ValidationError "violation list"
  | NoResultError
  | ZeroDivisionError
  | KeyError string

definition py_div :: "real \<Rightarrow> real \<Rightarrow> pyerror + real" where
  "py_div a b = (if b = 0 then Inl ZeroDivisionError else Inr (a / b))"

section \<open>Hull parameters\<close>

text \<open>
  A \<open>HullParameters\<close> object after \<open>__post_init__\<close>: all nine fields hold numbers.
  The arguments of the constructor are finite numbers. The float \<open>nan\<close>, for which each
  comparison of the validation is false, is not an input of this model.
\<close>

record hull_parameters =
  L :: real
  B :: real
  T :: real
  CB :: real
  CM :: real
  LCB :: real
  S :: real
  V :: real
  APP :: real

definition validation_errors :: "real \<Rightarrow> real \<Rightarrow> real \<Rightarrow> real \<Rightarrow> violation list" where
  "validation_errors l b t cb =
     (if l \<le> 0 then [LengthNotPositive] else []) @
     (if b \<le> 0 then [BeamNotPositive] else []) @
     (if t \<le> 0 then [DraftNotPositive] else []) @
     (if \<not> (0.3 \<le> cb \<and> cb \<le> 1.0)
      then [BlockCoefficientRange cb, BlockCoefficientHint] else [])"

definition validate_parameters :: "real \<Rightarrow> real \<Rightarrow> real \<Rightarrow> real \<Rightarrow> pyerror + unit" where
  "validate_parameters l b t cb =
     (let errors = validation_errors l b t cb
      in if errors \<noteq> [] then Inl (ValidationError errors) else Inr ())"

text \<open>
  \<open>_calculate_missing_parameters\<close>: the volume first, then the wetted surface from that
  volume. It runs after the validation only, so \<open>t\<close>, \<open>cb\<close> and \<open>l\<close> are positive where
  the source divides by them and takes the square root.
\<close>

definition calculate_missing_parameters ::
  "real \<Rightarrow> real \<Rightarrow> real \<Rightarrow> real \<Rightarrow> real option \<Rightarrow> real option \<Rightarrow> real option \<Rightarrow>
   real option \<Rightarrow> real option \<Rightarrow> hull_parameters" where
  "calculate_missing_parameters l b t cb cm lcb s v app =
     (let v' = (case v of None \<Rightarrow> l * b * t * cb | Some x \<Rightarrow> x);
          s' = (case s of
                  None \<Rightarrow> l * (2 * t + b) * sqrt cb *
                           (0.453 + 0.4425 * cb - 0.2862 * cb ^ 2 -
                            0.003467 * b / t + 0.3696 * cb * b / t) +
                          2.38 * v' / cb / l
                | Some x \<Rightarrow> x);
          cm' = (case cm of None \<Rightarrow> 0.98 | Some x \<Rightarrow> x);
          lcb' = (case lcb of None \<Rightarrow> 0.5 | Some x \<Rightarrow> x);
          app' = (case app of None \<Rightarrow> 0.5 * pi * (0.7 * t) ^ 2 | Some x \<Rightarrow> x)
      in \<lparr>L = l, B = b, T = t, CB = cb, CM = cm', LCB = lcb', S = s', V = v', APP = app'\<rparr>)"

text \<open>
  The constructor \<open>HullParameters(L, B, T, CB, CM, LCB, S, V, APP)\<close>, the last five
  optional (\<open>None\<close> when absent): validation, then completion.
\<close>

definition HullParameters ::
  "real \<Rightarrow> real \<Rightarrow> real \<Rightarrow> real \<Rightarrow> real option \<Rightarrow> real option \<Rightarrow> real option \<Rightarrow>
   real option \<Rightarrow> real option \<Rightarrow> pyerror + hull_parameters" where
  "HullParameters l b t cb cm lcb s v app =
     (case validate_parameters l b t cb of
        Inl e \<Rightarrow> Inl e
      | Inr _ \<Rightarrow> Inr (calculate_missing_parameters l b t cb cm lcb s v app))"

section \<open>Formatting\<close>






section \<open>The hull summary\<close>

text \<open>
  \<open>language or Config.LANGUAGE\<close>: Python's \<open>or\<close> takes the right operand when the left
  one is \<open>None\<close> or the empty string. \<open>Config.LANGUAGE\<close> is a class attribute that the
  program assigns at run time (\<open>interactive_calculator\<close> does); the model passes its
  current value as the argument \<open>config_language\<close>.
\<close>

definition language_or :: "string option \<Rightarrow> string \<Rightarrow> string" where
  "language_or language config_language =
     (case language of
        None \<Rightarrow> config_language
      | Some s \<Rightarrow> if s = [] then config_language else s)"



section \<open>The resistance calculator\<close>

definition WATER_DENSITY :: real where
  "WATER_DENSITY = 1025"

definition KINEMATIC_VISCOSITY :: real where
  "KINEMATIC_VISCOSITY = 1.1892 / 10 ^ 6"

definition GRAVITY :: real where
  "GRAVITY = 9.81"

text \<open>
  The dictionary \<open>self.results\<close>. Its keys are fixed by the method that filled it: the
  four keys that only \<open>calculate_holtrop\<close> writes are optional fields. Each value is a
  numpy array with one entry per speed; the model takes the speeds as a list of finite
  numbers (a scalar argument is the list of that one speed).
\<close>

record result_set =
  speed_mps :: "npfloat list"
  speed_knots :: "npfloat list"
  froude :: "npfloat list"
  reynolds :: "npfloat list option"
  resistance_total_N :: "npfloat list"
  resistance_total_kN :: "npfloat list"
  resistance_friction_N :: "npfloat list option"
  residual_resistance_N :: "npfloat list option"
  cf_coefficient :: "npfloat list option"
  effective_power_kW :: "npfloat list"

text \<open>
  A \<open>ResistanceCalculator\<close> object. Its attribute \<open>hull\<close> is the field \<open>hull_params\<close>
  here (\<open>hull\<close> is an operator of the logic).
\<close>

record calculator =
  hull_params :: hull_parameters
  results :: "result_set option"

definition ResistanceCalculator :: "hull_parameters \<Rightarrow> calculator" where
  "ResistanceCalculator hp = \<lparr>hull_params = hp, results = None\<rparr>"

subsection \<open>Method \<open>calculate_holtrop\<close>\<close>

text \<open>The local variables of \<open>calculate_holtrop\<close>, at one speed \<open>v\<close> of the array.\<close>

definition holtrop_Fn :: "hull_parameters \<Rightarrow> real \<Rightarrow> npfloat" where
  "holtrop_Fn h v = np_div (Fin v) (np_sqrt (Fin (GRAVITY * L h)))"

definition holtrop_Rn :: "hull_parameters \<Rightarrow> real \<Rightarrow> npfloat" where
  "holtrop_Rn h v = np_div (np_mul (Fin v) (Fin (L h))) (Fin KINEMATIC_VISCOSITY)"

definition holtrop_CF :: "hull_parameters \<Rightarrow> real \<Rightarrow> npfloat" where
  "holtrop_CF h v = np_div (Fin 0.075) (np_sq (np_sub (np_log10 (holtrop_Rn h v)) (Fin 2)))"

definition holtrop_RF :: "hull_parameters \<Rightarrow> real \<Rightarrow> npfloat" where
  "holtrop_RF h v =
     np_mul (np_mul (np_mul (Fin (0.5 * WATER_DENSITY)) (np_sq (Fin v))) (Fin (S h)))
       (holtrop_CF h v)"

text \<open>
  The constants that do not depend on the speed. \<open>B / L\<close> and \<open>L**3 / V\<close> are divisions
  of Python floats and raise ZeroDivisionError on a zero divisor; the division in \<open>c3\<close>
  has a numpy value as its divisor and does not raise.
\<close>

definition holtrop_c1 :: "real \<Rightarrow> npfloat" where
  "holtrop_c1 b_over_l =
     np_mul (np_mul (Fin 2223105) (py_pow b_over_l 1.07961)) (py_pow (90 - 0.3) (- 1.37565))"

definition holtrop_c2 :: "npfloat \<Rightarrow> npfloat" where
  "holtrop_c2 c1 = np_exp (np_mul (Fin (- 1.89)) (np_sqrt c1))"

definition holtrop_c3 :: "hull_parameters \<Rightarrow> npfloat" where
  "holtrop_c3 h =
     np_div (np_mul (Fin 0.56) (py_pow (B h * T h) 1.5))
       (np_mul (Fin (V h)) (np_add (np_mul (Fin 0.31) (np_sqrt (Fin (B h * T h)))) (Fin (T h))))"

definition holtrop_c13 :: "hull_parameters \<Rightarrow> real" where
  "holtrop_c13 h = 1 + 0.003 * LCB h"

text \<open>The exponent \<open>-0.9/Fn\<close> of the residual resistance, and the residual resistance.\<close>

definition holtrop_exponent :: "hull_parameters \<Rightarrow> real \<Rightarrow> npfloat" where
  "holtrop_exponent h v = np_div (Fin (- 0.9)) (holtrop_Fn h v)"

definition holtrop_RR ::
  "hull_parameters \<Rightarrow> npfloat \<Rightarrow> npfloat \<Rightarrow> real \<Rightarrow> real \<Rightarrow> real \<Rightarrow> npfloat" where
  "holtrop_RR h c2 c3 c12 c13 v =
     np_mul
       (np_mul
          (np_mul (np_mul (np_mul (Fin (V h * WATER_DENSITY * GRAVITY)) c2) c3)
             (py_pow c12 0.004))
          (np_exp (holtrop_exponent h v)))
       (Fin c13)"

definition holtrop_RTotal ::
  "hull_parameters \<Rightarrow> npfloat \<Rightarrow> npfloat \<Rightarrow> real \<Rightarrow> real \<Rightarrow> real \<Rightarrow> npfloat" where
  "holtrop_RTotal h c2 c3 c12 c13 v = np_add (holtrop_RF h v) (holtrop_RR h c2 c3 c12 c13 v)"

text \<open>The dictionary that \<open>calculate_holtrop\<close> stores and returns.\<close>

definition holtrop_results ::
  "hull_parameters \<Rightarrow> npfloat \<Rightarrow> npfloat \<Rightarrow> real \<Rightarrow> real \<Rightarrow> real list \<Rightarrow> result_set" where
  "holtrop_results h c2 c3 c12 c13 speeds =
     \<lparr>speed_mps = map Fin speeds,
      speed_knots = map (\<lambda>v. np_mul (Fin v) (Fin 1.944)) speeds,
      froude = map (holtrop_Fn h) speeds,
      reynolds = Some (map (holtrop_Rn h) speeds),
      resistance_total_N = map (holtrop_RTotal h c2 c3 c12 c13) speeds,
      resistance_total_kN =
        map (\<lambda>v. np_div (holtrop_RTotal h c2 c3 c12 c13 v) (Fin 1000)) speeds,
      resistance_friction_N = Some (map (holtrop_RF h) speeds),
      residual_resistance_N = Some (map (holtrop_RR h c2 c3 c12 c13) speeds),
      cf_coefficient = Some (map (holtrop_CF h) speeds),
      effective_power_kW =
        map (\<lambda>v. np_div (np_mul (holtrop_RTotal h c2 c3 c12 c13 v) (Fin v)) (Fin 1000))
          speeds\<rparr>"

text \<open>
  The method, in the source's order of evaluation: the arrays \<open>Fn\<close>, \<open>Rn\<close>, \<open>CF\<close>, \<open>RF\<close>
  never raise; \<open>c1\<close> divides \<open>B\<close> by \<open>L\<close>; \<open>c12\<close> divides by \<open>V\<close>; the assignment to
  \<open>self.results\<close> comes last, so a call that raises leaves the object as it was.
\<close>

definition calculate_holtrop ::
  "calculator \<Rightarrow> real list \<Rightarrow> pyerror + (result_set \<times> calculator)" where
  "calculate_holtrop self speeds =
     (let h = hull_params self
      in case py_div (B h) (L h) of
           Inl e \<Rightarrow> Inl e
         | Inr b_over_l \<Rightarrow>
             (let c1 = holtrop_c1 b_over_l;
                  c2 = holtrop_c2 c1;
                  c3 = holtrop_c3 h
              in case py_div (L h ^ 3) (V h) of
                   Inl e \<Rightarrow> Inl e
                 | Inr c12 \<Rightarrow>
                     (let c13 = holtrop_c13 h;
                          r = holtrop_results h c2 c3 c12 c13 speeds
                      in Inr (r, self\<lparr>results := Some r\<rparr>))))"

subsection \<open>Method \<open>calculate_simple\<close>\<close>

definition simple_Fn :: "hull_parameters \<Rightarrow> real \<Rightarrow> npfloat" where
  "simple_Fn h v = np_div (Fin v) (np_sqrt (Fin (GRAVITY * L h)))"

definition simple_RTotal :: "hull_parameters \<Rightarrow> real \<Rightarrow> npfloat" where
  "simple_RTotal h v =
     np_mul (np_mul (np_mul (Fin (0.5 * WATER_DENSITY)) (np_sq (Fin v))) (Fin (S h)))
       (np_add (Fin 0.001) (np_mul (Fin 0.002) (np_sq (simple_Fn h v))))"

definition simple_results :: "hull_parameters \<Rightarrow> real list \<Rightarrow> result_set" where
  "simple_results h speeds =
     \<lparr>speed_mps = map Fin speeds,
      speed_knots = map (\<lambda>v. np_mul (Fin v) (Fin 1.944)) speeds,
      froude = map (simple_Fn h) speeds,
      reynolds = None,
      resistance_total_N = map (simple_RTotal h) speeds,
      resistance_total_kN = map (\<lambda>v. np_div (simple_RTotal h v) (Fin 1000)) speeds,
      resistance_friction_N = None,
      residual_resistance_N = None,
      cf_coefficient = None,
      effective_power_kW =
        map (\<lambda>v. np_div (np_mul (simple_RTotal h v) (Fin v)) (Fin 1000)) speeds\<rparr>"

definition calculate_simple :: "calculator \<Rightarrow> real list \<Rightarrow> result_set \<times> calculator" where
  "calculate_simple self speeds =
     (let r = simple_results (hull_params self) speeds
      in (r, self\<lparr>results := Some r\<rparr>))"

subsection \<open>Export, plot and printed table\<close>

text \<open>
  Each of the three methods starts with the same guard on \<open>self.results\<close>. What follows
  the guard writes a file, draws a figure or prints a table; of that the model keeps the
  returned file name (\<open>timestamp\<close> is the clock reading, formatted), the lookup of the
  label set, which raises KeyError for a language that is neither of the two, and the
  number of rows printed.
\<close>

definition export_results :: "calculator \<Rightarrow> string option \<Rightarrow> string \<Rightarrow> pyerror + string" where
  "export_results self filename timestamp =
     (if results self = None then Inl NoResultError
      else Inr (case filename of
                  None \<Rightarrow> ''resistance_results_'' @ timestamp @ ''.csv''
                | Some f \<Rightarrow> f))"

definition plot_results ::
  "calculator \<Rightarrow> string option \<Rightarrow> string option \<Rightarrow> string \<Rightarrow> pyerror + unit" where
  "plot_results self save_path language config_language =
     (if results self = None then Inl NoResultError
      else let lang = language_or language config_language
           in if lang \<noteq> ''english'' \<and> lang \<noteq> ''portuguese'' then Inl (KeyError lang)
              else Inr ())"

definition print_summary :: "calculator \<Rightarrow> string option \<Rightarrow> string \<Rightarrow> pyerror + nat" where
  "print_summary self language config_language =
     (case results self of
        None \<Rightarrow> Inl NoResultError
      | Some r \<Rightarrow> Inr (min 10 (length (speed_mps r))))"

section \<open>Reference formulas and inputs\<close>

text \<open>
  The class invariant that the constructor establishes for the four required fields.
\<close>

definition valid_hull :: "hull_parameters \<Rightarrow> bool" where
  "valid_hull h \<longleftrightarrow> 0 < L h \<and> 0 < B h \<and> 0 < T h \<and> 0.3 \<le> CB h \<and> CB h \<le> 1"


definition spec_Rn :: "real \<Rightarrow> real \<Rightarrow> real" where
  "spec_Rn l v = v * l / (1.1892 / 10 ^ 6)"













text \<open>
  The hull of the specification's scenario, \<open>HullParameters(L=150, B=20, T=8, CB=0.70)\<close>
  with the other fields derived; the same hull built with an explicit volume of zero and
  of \<open>-1\<close>; and the same hull built with an explicit negative wetted surface.
\<close>

definition hull150 :: hull_parameters where
  "hull150 = calculate_missing_parameters 150 20 8 0.7 None None None None None"








section \<open>Hull construction: properties\<close>

lemma validation_errors_Nil_iff:
  "validation_errors l b t cb = [] \<longleftrightarrow> 0 < l \<and> 0 < b \<and> 0 < t \<and> 0.3 \<le> cb \<and> cb \<le> 1"
  by (auto simp: validation_errors_def)

lemma HullParameters_valid:
  assumes "0 < l" "0 < b" "0 < t" "0.3 \<le> cb" "cb \<le> 1"
  shows "HullParameters l b t cb cm lcb s v app =
           Inr (calculate_missing_parameters l b t cb cm lcb s v app)"
proof -
  have "validation_errors l b t cb = []"
    using assms by (simp add: validation_errors_Nil_iff)
  then show ?thesis
    by (simp add: HullParameters_def validate_parameters_def)
qed

lemma HullParameters_invalid:
  assumes "validation_errors l b t cb \<noteq> []"
  shows "HullParameters l b t cb cm lcb s v app =
           Inl (ValidationError (validation_errors l b t cb))"
  using assms by (simp add: HullParameters_def validate_parameters_def Let_def)



lemma calculate_missing_parameters_fields:
  "L (calculate_missing_parameters l b t cb cm lcb s v app) = l"
  "B (calculate_missing_parameters l b t cb cm lcb s v app) = b"
  "T (calculate_missing_parameters l b t cb cm lcb s v app) = t"
  "CB (calculate_missing_parameters l b t cb cm lcb s v app) = cb"
  "CM (calculate_missing_parameters l b t cb cm lcb s v app) =
     (case cm of None \<Rightarrow> 0.98 | Some x \<Rightarrow> x)"
  "LCB (calculate_missing_parameters l b t cb cm lcb s v app) =
     (case lcb of None \<Rightarrow> 0.5 | Some x \<Rightarrow> x)"
  "V (calculate_missing_parameters l b t cb cm lcb s v app) =
     (case v of None \<Rightarrow> l * b * t * cb | Some x \<Rightarrow> x)"
  "S (calculate_missing_parameters l b t cb cm lcb s v app) =
     (case s of
        None \<Rightarrow> l * (2 * t + b) * sqrt cb *
                 (0.453 + 0.4425 * cb - 0.2862 * cb ^ 2 - 0.003467 * b / t +
                  0.3696 * cb * b / t) +
                2.38 * (case v of None \<Rightarrow> l * b * t * cb | Some x \<Rightarrow> x) / cb / l
      | Some x \<Rightarrow> x)"
  "APP (calculate_missing_parameters l b t cb cm lcb s v app) =
     (case app of None \<Rightarrow> 0.5 * pi * (0.7 * t) ^ 2 | Some x \<Rightarrow> x)"
  by (simp_all add: calculate_missing_parameters_def Let_def)







section \<open>The Holtrop method on a valid hull\<close>

lemma valid_hullD:
  "valid_hull h \<Longrightarrow> 0 < L h" "valid_hull h \<Longrightarrow> 0 < B h" "valid_hull h \<Longrightarrow> 0 < T h"
  "valid_hull h \<Longrightarrow> 0.3 \<le> CB h" "valid_hull h \<Longrightarrow> CB h \<le> 1"
  by (simp_all add: valid_hull_def)

lemma HullParameters_establishes_valid_hull:
  assumes "HullParameters l b t cb cm lcb s v app = Inr h"
  shows "valid_hull h"
proof (cases "validation_errors l b t cb = []")
  case True
  then have ok: "0 < l \<and> 0 < b \<and> 0 < t \<and> 0.3 \<le> cb \<and> cb \<le> 1"
    by (simp add: validation_errors_Nil_iff)
  then have "h = calculate_missing_parameters l b t cb cm lcb s v app"
    using assms by (simp add: HullParameters_valid)
  with ok show ?thesis
    by (simp add: valid_hull_def calculate_missing_parameters_fields)
next
  case False
  then show ?thesis
    using assms by (simp add: HullParameters_invalid)
qed




lemma holtrop_Rn_Fin:
  "holtrop_Rn h v = Fin (spec_Rn (L h) v)"
  by (simp add: holtrop_Rn_def spec_Rn_def KINEMATIC_VISCOSITY_def)

lemma spec_Rn_sign:
  "0 < l \<Longrightarrow> 0 < v \<Longrightarrow> 0 < spec_Rn l v"
  "0 < l \<Longrightarrow> v < 0 \<Longrightarrow> spec_Rn l v < 0"
  "spec_Rn l 0 = 0"
  by (simp_all add: spec_Rn_def mult_neg_pos)




lemma holtrop_CF_zero:
  "holtrop_CF h 0 = Fin 0"
  by (simp add: holtrop_CF_def holtrop_Rn_Fin np_sq_def spec_Rn_sign)


lemma holtrop_RF_zero:
  "holtrop_RF h 0 = Fin 0"
  by (simp add: holtrop_RF_def np_sq_def holtrop_CF_zero)



















section \<open>The scenario hull, and the simplified method\<close>













section \<open>The Holtrop method at singular speeds\<close>








section \<open>The state of the calculator, and the summary\<close>

text \<open>
  Claim C7. A new calculator holds no result. While it holds none, \<open>export_results\<close>,
  \<open>plot_results\<close> and \<open>print_summary\<close> fail with the error of the missing result, whatever
  their arguments; once it holds one, none of them fails with that error. A call of
  \<open>calculate_holtrop\<close> or \<open>calculate_simple\<close> that returns stores exactly the result it
  returns and leaves the hull as it was; the result and the new state are the same whatever
  result was stored before.
\<close>

theorem engine_state_machine:
  "results (ResistanceCalculator h) = None \<and>
   (results self = None \<longrightarrow>
      export_results self filename timestamp = Inl NoResultError \<and>
      plot_results self save_path language config_language = Inl NoResultError \<and>
      print_summary self language config_language = Inl NoResultError) \<and>
   (results self \<noteq> None \<longrightarrow>
      export_results self filename timestamp \<noteq> Inl NoResultError \<and>
      plot_results self save_path language config_language \<noteq> Inl NoResultError \<and>
      print_summary self language config_language \<noteq> Inl NoResultError) \<and>
   (\<forall>r self'. calculate_holtrop self speeds = Inr (r, self') \<longrightarrow>
      self' = self\<lparr>results := Some r\<rparr> \<and> results self' = Some r \<and>
      hull_params self' = hull_params self \<and>
      (\<forall>old. calculate_holtrop (self\<lparr>results := old\<rparr>) speeds = Inr (r, self'))) \<and>
   (\<forall>r self'. calculate_simple self speeds = (r, self') \<longrightarrow>
      self' = self\<lparr>results := Some r\<rparr> \<and> results self' = Some r \<and>
      hull_params self' = hull_params self \<and>
      (\<forall>old. calculate_simple (self\<lparr>results := old\<rparr>) speeds = (r, self')))"
proof -
  have fresh: "results (ResistanceCalculator h) = None"
    by (simp add: ResistanceCalculator_def)
  have empty: "results self = None \<longrightarrow>
      export_results self filename timestamp = Inl NoResultError \<and>
      plot_results self save_path language config_language = Inl NoResultError \<and>
      print_summary self language config_language = Inl NoResultError"
    by (simp add: export_results_def plot_results_def print_summary_def)
  have full: "results self \<noteq> None \<longrightarrow>
      export_results self filename timestamp \<noteq> Inl NoResultError \<and>
      plot_results self save_path language config_language \<noteq> Inl NoResultError \<and>
      print_summary self language config_language \<noteq> Inl NoResultError"
    by (auto simp: export_results_def plot_results_def print_summary_def Let_def
        split: option.splits)
  have holtrop: "\<forall>r self'. calculate_holtrop self speeds = Inr (r, self') \<longrightarrow>
      self' = self\<lparr>results := Some r\<rparr> \<and> results self' = Some r \<and>
      hull_params self' = hull_params self \<and>
      (\<forall>old. calculate_holtrop (self\<lparr>results := old\<rparr>) speeds = Inr (r, self'))"
    by (auto simp: calculate_holtrop_def Let_def split: sum.splits)
  have simple: "\<forall>r self'. calculate_simple self speeds = (r, self') \<longrightarrow>
      self' = self\<lparr>results := Some r\<rparr> \<and> results self' = Some r \<and>
      hull_params self' = hull_params self \<and>
      (\<forall>old. calculate_simple (self\<lparr>results := old\<rparr>) speeds = (r, self'))"
    by (auto simp: calculate_simple_def Let_def)
  from fresh empty full holtrop simple show ?thesis by blast
qed

theorem engine_state_machine_witness:
  "results (ResistanceCalculator hull150) = None \<and>
   export_results (ResistanceCalculator hull150) None ''20261104_120000'' = Inl NoResultError \<and>
   plot_results (ResistanceCalculator hull150) None None ''english'' = Inl NoResultError \<and>
   print_summary (ResistanceCalculator hull150) None ''english'' = Inl NoResultError \<and>
   results (snd (calculate_simple (ResistanceCalculator hull150) [1])) =
     Some (fst (calculate_simple (ResistanceCalculator hull150) [1])) \<and>
   calculate_simple (snd (calculate_simple (ResistanceCalculator hull150) [1])) [2, 3] =
     (simple_results hull150 [2, 3],
      \<lparr>hull_params = hull150, results = Some (simple_results hull150 [2, 3])\<rparr>) \<and>
   export_results (snd (calculate_simple (ResistanceCalculator hull150) [1])) None
     ''20261104_120000'' = Inr ''resistance_results_20261104_120000.csv''"
proof -
  let ?c0 = "ResistanceCalculator hull150"
  let ?c1 = "snd (calculate_simple ?c0 [1])"
  note sm = engine_state_machine[of hull150 ?c0 None "''20261104_120000''" None None
      "''english''" "[1]"]
  have fresh: "results ?c0 = None" using sm by blast
  then have guards:
    "export_results ?c0 None ''20261104_120000'' = Inl NoResultError"
    "plot_results ?c0 None None ''english'' = Inl NoResultError"
    "print_summary ?c0 None ''english'' = Inl NoResultError"
    using sm by blast+
  have "calculate_simple ?c0 [1] = (fst (calculate_simple ?c0 [1]), ?c1)" by simp
  then have stored: "results ?c1 = Some (fst (calculate_simple ?c0 [1]))"
    using sm by blast
  have second: "calculate_simple ?c1 [2, 3] =
     (simple_results hull150 [2, 3],
      \<lparr>hull_params = hull150, results = Some (simple_results hull150 [2, 3])\<rparr>)"
    by (simp add: calculate_simple_def Let_def ResistanceCalculator_def)
  have export: "export_results ?c1 None ''20261104_120000'' =
      Inr ''resistance_results_20261104_120000.csv''"
    using stored by (simp add: export_results_def)
  from fresh guards stored second export show ?thesis by blast
qed




section \<open>Monotonicity of the total resistance\<close>






















subsection \<open>Between the singularity and the minimum of the friction term\<close>



















end
